theory Spec2Isabelle
  imports Complex_Main
begin

section \<open>Numbers\<close>

text \<open>
  The TypeScript sources compute on \<open>number\<close>. Unless a function itself tests for
  non-finite values, a \<open>number\<close> is modelled as a \<^typ>\<open>real\<close>: the arithmetic is
  exact, rounding and overflow are not modelled. Counters that the code only ever
  increments from \<open>0\<close> are \<^typ>\<open>nat\<close>. Every read of the clock (\<open>Date.now()\<close>) is an
  explicit argument of the function that reads it.
\<close>

section \<open>Risk manager (src/utils/risk-manager.ts)\<close>

record RiskLimits =
  maxPositionSize :: real
  maxDailyLoss :: real
  maxConsecutiveLosses :: real
  maxDrawdown :: real
  cooldownPeriod :: real
  emergencyStopLoss :: real

record RiskState =
  currentDrawdown :: real
  consecutiveLosses :: nat
  dailyLoss :: real
  lastTradeTime :: real
  isInCooldown :: bool
  emergencyStopTriggered :: bool

record TradeEntry =
  timestamp :: real
  pnl :: real
  isMaker :: bool

record RiskManager =
  limits :: RiskLimits
  state :: RiskState
  tradeHistory :: "TradeEntry list"

text \<open>
  The reason strings of the source are template strings that interpolate the compared
  numbers. A reason is modelled as a constructor per message, carrying the interpolated
  values. The last two constructors are the messages of the volume optimizer below.
\<close>

datatype Reason =
    EmergencyStop
  | Cooldown
  | PositionSizeExceeded real real
  | ConsecutiveLossesExceeded nat real
  | DailyLossExceeded real real
  | DrawdownExceeded real real
  | TradeIntervalTooShort real real
  | VolumeLimitExceeded real real

record Decision =
  allowed :: bool
  reason :: "Reason option"

definition newRiskManager :: "RiskLimits \<Rightarrow> RiskManager" where
  "newRiskManager lims =
     \<lparr> limits = lims,
       state = \<lparr> currentDrawdown = 0, consecutiveLosses = 0, dailyLoss = 0,
                 lastTradeTime = 0, isInCooldown = False,
                 emergencyStopTriggered = False \<rparr>,
       tradeHistory = [] \<rparr>"

definition canOpenPosition :: "real \<Rightarrow> RiskManager \<Rightarrow> real \<Rightarrow> Decision" where
  "canOpenPosition now rm proposedSize =
     (if emergencyStopTriggered (state rm) then
        \<lparr> allowed = False, reason = Some EmergencyStop \<rparr>
      else if isInCooldown (state rm)
              \<and> now - lastTradeTime (state rm) < cooldownPeriod (limits rm) then
        \<lparr> allowed = False, reason = Some Cooldown \<rparr>
      else if proposedSize > maxPositionSize (limits rm) then
        \<lparr> allowed = False,
          reason = Some (PositionSizeExceeded proposedSize (maxPositionSize (limits rm))) \<rparr>
      else if real (consecutiveLosses (state rm)) \<ge> maxConsecutiveLosses (limits rm) then
        \<lparr> allowed = False,
          reason = Some (ConsecutiveLossesExceeded (consecutiveLosses (state rm))
                           (maxConsecutiveLosses (limits rm))) \<rparr>
      else if dailyLoss (state rm) \<ge> maxDailyLoss (limits rm) then
        \<lparr> allowed = False,
          reason = Some (DailyLossExceeded (dailyLoss (state rm)) (maxDailyLoss (limits rm))) \<rparr>
      else if currentDrawdown (state rm) \<ge> maxDrawdown (limits rm) then
        \<lparr> allowed = False,
          reason = Some (DrawdownExceeded (currentDrawdown (state rm))
                           (maxDrawdown (limits rm))) \<rparr>
      else \<lparr> allowed = True, reason = None \<rparr>)"

text \<open>The loop of \<open>updateDrawdown\<close>, with its three local variables as arguments.\<close>

fun updateDrawdown_loop :: "TradeEntry list \<Rightarrow> real \<Rightarrow> real \<Rightarrow> real \<Rightarrow> real" where
  "updateDrawdown_loop [] peak currentPnl maxDd = maxDd"
| "updateDrawdown_loop (trade # rest) peak currentPnl maxDd =
     (let currentPnl' = currentPnl + pnl trade;
          peak' = (if currentPnl' > peak then currentPnl' else peak);
          drawdown = peak' - currentPnl';
          maxDd' = (if drawdown > maxDd then drawdown else maxDd)
      in updateDrawdown_loop rest peak' currentPnl' maxDd')"

definition updateDrawdown :: "RiskManager \<Rightarrow> RiskManager" where
  "updateDrawdown rm =
     (if tradeHistory rm = [] then rm
      else rm\<lparr> state := (state rm)\<lparr> currentDrawdown :=
                  updateDrawdown_loop (tradeHistory rm) 0 0 0 \<rparr> \<rparr>)"

definition recordTrade :: "real \<Rightarrow> real \<Rightarrow> bool \<Rightarrow> RiskManager \<Rightarrow> RiskManager" where
  "recordTrade now p mk rm =
     (let rm1 = rm\<lparr> tradeHistory :=
                  tradeHistory rm @ [\<lparr> timestamp = now, pnl = p, isMaker = mk \<rparr>] \<rparr>;
          rm2 = rm1\<lparr> state := (state rm1)\<lparr> lastTradeTime := now \<rparr> \<rparr>;
          rm3 = (if p < 0 then
                   rm2\<lparr> state := (state rm2)\<lparr>
                     consecutiveLosses := Suc (consecutiveLosses (state rm2)),
                     dailyLoss := dailyLoss (state rm2) + \<bar>p\<bar> \<rparr> \<rparr>
                 else rm2\<lparr> state := (state rm2)\<lparr> consecutiveLosses := 0 \<rparr> \<rparr>);
          rm4 = updateDrawdown rm3;
          rm5 = (if currentDrawdown (state rm4) \<ge> emergencyStopLoss (limits rm4) then
                   rm4\<lparr> state := (state rm4)\<lparr> emergencyStopTriggered := True \<rparr> \<rparr>
                 else rm4)
      in (if real (consecutiveLosses (state rm5)) \<ge> maxConsecutiveLosses (limits rm5) then
            rm5\<lparr> state := (state rm5)\<lparr> isInCooldown := True \<rparr> \<rparr>
          else rm5))"

definition resetDailyStats :: "RiskManager \<Rightarrow> RiskManager" where
  "resetDailyStats rm =
     rm\<lparr> state := (state rm)\<lparr> dailyLoss := 0, consecutiveLosses := 0,
                                isInCooldown := False \<rparr> \<rparr>"

definition resetEmergencyStop :: "RiskManager \<Rightarrow> RiskManager" where
  "resetEmergencyStop rm = rm\<lparr> state := (state rm)\<lparr> emergencyStopTriggered := False \<rparr> \<rparr>"

text \<open>
  The calls that mutate a risk manager, and a sequence of them applied in order. A
  recorded trade carries the clock reading of the call, the realised PnL and the maker flag.
\<close>

datatype RiskCall = RecordTrade real real bool | ResetDailyStats | ResetEmergencyStop

fun applyCall :: "RiskManager \<Rightarrow> RiskCall \<Rightarrow> RiskManager" where
  "applyCall rm (RecordTrade now p mk) = recordTrade now p mk rm"
| "applyCall rm ResetDailyStats = resetDailyStats rm"
| "applyCall rm ResetEmergencyStop = resetEmergencyStop rm"

definition applyCalls :: "RiskManager \<Rightarrow> RiskCall list \<Rightarrow> RiskManager" where
  "applyCalls rm cs = foldl applyCall rm cs"

text \<open>The recorded PnL sequence of a manager, oldest first.\<close>

definition recordedPnl :: "RiskManager \<Rightarrow> real list" where
  "recordedPnl rm = map pnl (tradeHistory rm)"

subsection \<open>The drawdown as the specification words it\<close>

text \<open>
  Written from the specification, to be compared with \<open>updateDrawdown\<close>: the cumulative
  PnL of the first \<open>k\<close> trades, its running peak (the peak starts at \<open>0\<close>, the
  cumulative PnL of no trade), and the maximum over all prefixes of peak minus cumulative PnL.
\<close>

definition cumulativePnl :: "real list \<Rightarrow> nat \<Rightarrow> real" where
  "cumulativePnl ps k = sum_list (take k ps)"

definition runningPeak :: "real list \<Rightarrow> nat \<Rightarrow> real" where
  "runningPeak ps k = Max (cumulativePnl ps ` {0..k})"

definition spec_drawdown :: "real list \<Rightarrow> real" where
  "spec_drawdown ps = Max ((\<lambda>k. runningPeak ps k - cumulativePnl ps k) ` {0..length ps})"

text \<open>
  The link between the flag and the recorded history that every reachable manager keeps:
  the stored drawdown is the drawdown of the recorded history, and a set latch is
  justified by that drawdown.
\<close>

definition latch_sound :: "RiskManager \<Rightarrow> bool" where
  "latch_sound rm \<longleftrightarrow>
     currentDrawdown (state rm) = spec_drawdown (recordedPnl rm)
     \<and> (emergencyStopTriggered (state rm)
          \<longrightarrow> spec_drawdown (recordedPnl rm) \<ge> emergencyStopLoss (limits rm))"

text \<open>Limits used in the concrete runs below.\<close>

definition demoLimits :: RiskLimits where
  "demoLimits = \<lparr> maxPositionSize = 1, maxDailyLoss = 100, maxConsecutiveLosses = 3,
                   maxDrawdown = 100, cooldownPeriod = 60000, emergencyStopLoss = 2 \<rparr>"

definition quietLimits :: RiskLimits where
  "quietLimits = \<lparr> maxPositionSize = 1, maxDailyLoss = 100, maxConsecutiveLosses = 3,
                   maxDrawdown = 1000, cooldownPeriod = 60000, emergencyStopLoss = 1000 \<rparr>"

text \<open>Three losing trades in a row: large ones and small ones.\<close>

definition heavyLosses :: "RiskCall list" where
  "heavyLosses = [RecordTrade 10 (-40) False, RecordTrade 20 (-40) False, RecordTrade 30 (-40) False]"

definition smallLosses :: "RiskCall list" where
  "smallLosses = [RecordTrade 10 (-1) False, RecordTrade 20 (-1) False, RecordTrade 30 (-1) False]"

subsection \<open>The gates of \<open>canOpenPosition\<close> as the specification words them\<close>

text \<open>
  Written from the specification, to be compared with \<open>canOpenPosition\<close>: the six gates
  in their priority order, each with the reason it reports, and the decision that
  reports the first gate that fails.
\<close>

definition gates :: "real \<Rightarrow> RiskManager \<Rightarrow> real \<Rightarrow> (bool \<times> Reason) list" where
  "gates now rm proposedSize =
     [ (emergencyStopTriggered (state rm), EmergencyStop),
       (isInCooldown (state rm) \<and> now - lastTradeTime (state rm) < cooldownPeriod (limits rm),
          Cooldown),
       (proposedSize > maxPositionSize (limits rm),
          PositionSizeExceeded proposedSize (maxPositionSize (limits rm))),
       (real (consecutiveLosses (state rm)) \<ge> maxConsecutiveLosses (limits rm),
          ConsecutiveLossesExceeded (consecutiveLosses (state rm)) (maxConsecutiveLosses (limits rm))),
       (dailyLoss (state rm) \<ge> maxDailyLoss (limits rm),
          DailyLossExceeded (dailyLoss (state rm)) (maxDailyLoss (limits rm))),
       (currentDrawdown (state rm) \<ge> maxDrawdown (limits rm),
          DrawdownExceeded (currentDrawdown (state rm)) (maxDrawdown (limits rm))) ]"

fun firstFailing :: "(bool \<times> Reason) list \<Rightarrow> Decision" where
  "firstFailing [] = \<lparr> allowed = True, reason = None \<rparr>"
| "firstFailing ((failed, r) # gs) =
     (if failed then \<lparr> allowed = False, reason = Some r \<rparr> else firstFailing gs)"

text \<open>The second and the fifth gate on their own.\<close>

definition cooldownGate :: "real \<Rightarrow> RiskManager \<Rightarrow> bool" where
  "cooldownGate now rm \<longleftrightarrow>
     isInCooldown (state rm) \<and> now - lastTradeTime (state rm) < cooldownPeriod (limits rm)"

definition dailyLossGate :: "RiskManager \<Rightarrow> bool" where
  "dailyLossGate rm \<longleftrightarrow> dailyLoss (state rm) \<ge> maxDailyLoss (limits rm)"

section \<open>Fee schedule (src/unnamed/part_000) and close strategy manager (src/config.ts)\<close>

text \<open>The two entries of \<open>ASTER_FEE_RATES\<close> that the close strategy reads.\<close>

definition LIMIT_MAKER :: real where
  "LIMIT_MAKER = 0.0001"

definition MARKET_TAKER :: real where
  "MARKET_TAKER = 0.00035"

datatype Side = BUY | SELL

datatype CloseStrategyName = profit_cover | original

record CloseStrategyConfig =
  minProfitMargin :: real
  timeoutMs :: real
  fallbackToOriginal :: bool

record CloseOrderInfo =
  side :: Side
  price :: real
  amount :: real
  minProfitRequired :: real
  isTimeout :: bool
  strategy :: CloseStrategyName

record CloseStrategyManager =
  config :: CloseStrategyConfig
  orderStartTime :: real
  isActive :: bool

text \<open>
  The constructor merges a partial configuration over the defaults; a field that the
  caller leaves out is \<open>None\<close>.
\<close>

definition newCloseStrategyManager ::
    "real option \<Rightarrow> real option \<Rightarrow> bool option \<Rightarrow> CloseStrategyManager" where
  "newCloseStrategyManager margin timeout fallback =
     \<lparr> config = \<lparr> minProfitMargin = (case margin of None \<Rightarrow> 0.0001 | Some v \<Rightarrow> v),
                    timeoutMs = (case timeout of None \<Rightarrow> 60000 | Some v \<Rightarrow> v),
                    fallbackToOriginal = (case fallback of None \<Rightarrow> True | Some v \<Rightarrow> v) \<rparr>,
       orderStartTime = 0,
       isActive = False \<rparr>"

definition startCloseStrategy :: "real \<Rightarrow> CloseStrategyManager \<Rightarrow> CloseStrategyManager" where
  "startCloseStrategy now m = m\<lparr> isActive := True, orderStartTime := now \<rparr>"

definition stopCloseStrategy :: "CloseStrategyManager \<Rightarrow> CloseStrategyManager" where
  "stopCloseStrategy m = m\<lparr> isActive := False \<rparr>"

text \<open>The local \<open>isTimeout\<close> of \<open>calculateClosePrice\<close>.\<close>

definition timedOut :: "real \<Rightarrow> CloseStrategyManager \<Rightarrow> bool" where
  "timedOut now m \<longleftrightarrow> isActive m \<and> now - orderStartTime m > timeoutMs (config m)"

text \<open>The locals \<open>openFee\<close> and \<open>closeFee\<close>, on the entry notional.\<close>

definition openFee :: "real \<Rightarrow> real \<Rightarrow> real" where
  "openFee entry amt = (entry * amt) * LIMIT_MAKER"

definition closeFee :: "real \<Rightarrow> real \<Rightarrow> real" where
  "closeFee entry amt = (entry * amt) * MARKET_TAKER"

text \<open>
  The close price divides by the amount. For an amount of \<open>0\<close> JavaScript yields
  \<open>NaN\<close> where HOL's division yields \<open>0\<close>, so the \<open>price\<close> field of the model is the
  source's only for a nonzero amount; the other fields do not depend on the division.
\<close>

definition calculateClosePrice ::
    "real \<Rightarrow> CloseStrategyManager \<Rightarrow> real \<Rightarrow> real \<Rightarrow> Side \<Rightarrow> real \<Rightarrow> real \<Rightarrow> CloseOrderInfo" where
  "calculateClosePrice now m entry amt sd currentBid currentAsk =
     (if timedOut now m \<and> fallbackToOriginal (config m) then
        \<lparr> side = sd, price = (if sd = SELL then currentBid else currentAsk), amount = amt,
          minProfitRequired = 0, isTimeout = True, strategy = original \<rparr>
      else
        (let notional = entry * amt;
             totalFees = openFee entry amt + closeFee entry amt;
             minProfit = totalFees + notional * minProfitMargin (config m);
             closePrice = (if sd = SELL then min (entry + minProfit / amt) currentBid
                           else max (entry - minProfit / amt) currentAsk)
         in \<lparr> side = sd, price = closePrice, amount = amt,
              minProfitRequired = minProfit, isTimeout = False, strategy = profit_cover \<rparr>))"

text \<open>The local \<open>potentialProfit\<close> of \<open>shouldUseMarketClose\<close>.\<close>

definition potentialProfit :: "real \<Rightarrow> real \<Rightarrow> Side \<Rightarrow> real \<Rightarrow> real \<Rightarrow> real" where
  "potentialProfit entry amt sd currentBid currentAsk =
     (let currentPrice = (if sd = SELL then currentBid else currentAsk)
      in if sd = SELL then (currentPrice - entry) * amt else (entry - currentPrice) * amt)"

definition shouldUseMarketClose ::
    "real \<Rightarrow> CloseStrategyManager \<Rightarrow> real \<Rightarrow> real \<Rightarrow> Side \<Rightarrow> real \<Rightarrow> real \<Rightarrow> bool" where
  "shouldUseMarketClose now m entry amt sd currentBid currentAsk =
     (let closeInfo = calculateClosePrice now m entry amt sd currentBid currentAsk
      in if strategy closeInfo = profit_cover then
           potentialProfit entry amt sd currentBid currentAsk < minProfitRequired closeInfo
         else isTimeout closeInfo)"

text \<open>A manager with the default configuration, and one configured with no margin.\<close>

definition zeroMarginManager :: CloseStrategyManager where
  "zeroMarginManager = newCloseStrategyManager (Some 0) None None"

definition defaultManager :: CloseStrategyManager where
  "defaultManager = newCloseStrategyManager None None None"

section \<open>Volume strategy optimizer (src/unnamed/part_003)\<close>

text \<open>
  Of the configuration, the fields that \<open>canExecuteTrade\<close> and \<open>shouldQuickClose\<close> read.
  Field names that the risk manager's records already use carry the prefix \<open>v_\<close>.
\<close>

record VolumeStrategyConfig =
  maxVolumePerMinute :: real
  minTradeInterval :: real
  maxPositionHoldTime :: real
  quickCloseThreshold :: real
  maxDrawdownPerTrade :: real

record VolumeTrade =
  v_timestamp :: real
  volume :: real
  v_pnl :: real
  holdTime :: real
  v_isMaker :: bool

record VolumeStrategyOptimizer =
  v_config :: VolumeStrategyConfig
  v_tradeHistory :: "VolumeTrade list"
  v_lastTradeTime :: real
  sessionStartTime :: real

record VolumeDecision = Decision +
  suggestedVolume :: "real option"

text \<open>
  The constructor merges the caller's partial configuration over the defaults; the
  merged configuration is the argument here, with the clock reading of the call.
\<close>

definition newVolumeStrategyOptimizer ::
    "real \<Rightarrow> VolumeStrategyConfig \<Rightarrow> VolumeStrategyOptimizer" where
  "newVolumeStrategyOptimizer now cfg =
     \<lparr> v_config = cfg, v_tradeHistory = [], v_lastTradeTime = 0, sessionStartTime = now \<rparr>"

text \<open>\<open>filter\<close> then \<open>reduce\<close> from \<open>0\<close>, left to right.\<close>

definition getRecentVolume :: "real \<Rightarrow> VolumeStrategyOptimizer \<Rightarrow> real \<Rightarrow> real" where
  "getRecentVolume now opt timeWindow =
     foldl (\<lambda>sum t. sum + volume t) 0
       (filter (\<lambda>t. now - v_timestamp t \<le> timeWindow) (v_tradeHistory opt))"

text \<open>
  \<open>canExecuteTrade\<close> reads the clock itself (\<open>now\<close>) and \<open>getRecentVolume\<close>, which it
  calls, reads it again (\<open>now'\<close>).
\<close>

definition canExecuteTrade ::
    "real \<Rightarrow> real \<Rightarrow> VolumeStrategyOptimizer \<Rightarrow> real \<Rightarrow> VolumeDecision" where
  "canExecuteTrade now now' opt proposedVolume =
     (let timeSinceLastTrade = now - v_lastTradeTime opt
      in if timeSinceLastTrade < minTradeInterval (v_config opt) then
           \<lparr> allowed = False,
             reason = Some (TradeIntervalTooShort timeSinceLastTrade
                              (minTradeInterval (v_config opt))),
             suggestedVolume = None \<rparr>
         else
           (let recentVolume = getRecentVolume now' opt 60000
            in if recentVolume + proposedVolume > maxVolumePerMinute (v_config opt) then
                 \<lparr> allowed = False,
                   reason = Some (VolumeLimitExceeded (recentVolume + proposedVolume)
                                    (maxVolumePerMinute (v_config opt))),
                   suggestedVolume =
                     Some (max 0.001 (maxVolumePerMinute (v_config opt) - recentVolume)) \<rparr>
               else \<lparr> allowed = True, reason = None, suggestedVolume = None \<rparr>))"

text \<open>
  \<open>recordTrade\<close> of the optimizer; the statistics it refreshes afterwards are not part
  of the model.
\<close>

definition recordVolumeTrade ::
    "real \<Rightarrow> real \<Rightarrow> real \<Rightarrow> real \<Rightarrow> bool \<Rightarrow> VolumeStrategyOptimizer \<Rightarrow> VolumeStrategyOptimizer" where
  "recordVolumeTrade now vol p hold mk opt =
     opt\<lparr> v_tradeHistory := v_tradeHistory opt @
              [\<lparr> v_timestamp = now, volume = vol, v_pnl = p, holdTime = hold, v_isMaker = mk \<rparr>],
          v_lastTradeTime := now \<rparr>"

definition demoVolumeConfig :: VolumeStrategyConfig where
  "demoVolumeConfig = \<lparr> maxVolumePerMinute = 100, minTradeInterval = 1000,
       maxPositionHoldTime = 30000, quickCloseThreshold = 0.001, maxDrawdownPerTrade = 0.002 \<rparr>"

text \<open>An optimizer that has recorded one trade of the given volume at time 1000.\<close>

definition usedVolume :: "real \<Rightarrow> VolumeStrategyOptimizer" where
  "usedVolume vol =
     recordVolumeTrade 1000 vol 0 500 True (newVolumeStrategyOptimizer 0 demoVolumeConfig)"

section \<open>Resilient request layer (src/utils/http.ts)\<close>

text \<open>
  A response of the Fetch API, as far as \<open>safeFetch\<close> looks at it: the status code, and
  a body that tells responses apart. \<open>Response.ok\<close> is the platform's: true exactly for
  the statuses 200 to 299.
\<close>

record Response =
  status :: nat
  body :: string

definition ok :: "Response \<Rightarrow> bool" where
  "ok r \<longleftrightarrow> 200 \<le> status r \<and> status r \<le> 299"

text \<open>
  One call of \<open>fetch\<close> either resolves with a response or rejects with an error (a
  transport failure, or the abort of the timeout). The outcomes of the successive calls
  are a function of the call's index, counted from \<open>0\<close>; the successive results of
  \<open>Math.random()\<close> are a function of the retry's index.
\<close>

datatype FetchOutcome = Resolved Response | Rejected string

datatype SafeFetchResult = Returned Response | Thrown string

record RetryPolicy =
  maxRetries :: nat
  baseDelayMs :: real
  maxDelayMs :: real
  retryOnStatuses :: "nat list"

text \<open>What a run of \<open>safeFetch\<close> did: its result, the calls of \<open>fetch\<close> it made, and
  the delays it slept, in order.\<close>

record SafeFetchRun =
  result :: SafeFetchResult
  attempts :: nat
  delays :: "real list"

text \<open>\<open>computeBackoff\<close>, with the result \<open>r\<close> of \<open>Math.random()\<close> as an argument.\<close>

definition computeBackoff :: "nat \<Rightarrow> real \<Rightarrow> real \<Rightarrow> real \<Rightarrow> real" where
  "computeBackoff attempt base maxDelay r =
     (let jitter = r * base
      in min maxDelay (of_int \<lfloor>base * 2 ^ attempt + jitter\<rfloor>))"

text \<open>
  The \<open>while (true)\<close> loop. The loop makes one call of \<open>fetch\<close> per round and adds one to
  \<open>attempt\<close> per retry, so the round with counter \<open>attempt\<close> makes the call of that index.
\<close>

function safeFetch_loop ::
    "(nat \<Rightarrow> FetchOutcome) \<Rightarrow> (nat \<Rightarrow> real) \<Rightarrow> nat \<Rightarrow> real \<Rightarrow> real \<Rightarrow> nat list
       \<Rightarrow> nat \<Rightarrow> real list \<Rightarrow> SafeFetchRun" where
  "safeFetch_loop fetch rnd maxR baseDelay maxDelay retryStatuses attempt slept =
     (case fetch attempt of
        Resolved response \<Rightarrow>
          if \<not> ok response \<and> status response \<in> set retryStatuses \<and> attempt < maxR then
            safeFetch_loop fetch rnd maxR baseDelay maxDelay retryStatuses (attempt + 1)
              (slept @ [computeBackoff attempt baseDelay maxDelay (rnd attempt)])
          else \<lparr> result = Returned response, attempts = attempt + 1, delays = slept \<rparr>
      | Rejected err \<Rightarrow>
          if attempt < maxR then
            safeFetch_loop fetch rnd maxR baseDelay maxDelay retryStatuses (attempt + 1)
              (slept @ [computeBackoff attempt baseDelay maxDelay (rnd attempt)])
          else \<lparr> result = Thrown err, attempts = attempt + 1, delays = slept \<rparr>)"
  by pat_completeness auto
termination
  by (relation "measure (\<lambda>(fetch, rnd, maxR, baseDelay, maxDelay, retryStatuses, attempt, slept).
        maxR - attempt)") auto

text \<open>The loop's equation is applied by hand, one round at a time.\<close>

declare safeFetch_loop.simps [simp del]

definition safeFetch ::
    "(nat \<Rightarrow> FetchOutcome) \<Rightarrow> (nat \<Rightarrow> real) \<Rightarrow> RetryPolicy option \<Rightarrow> SafeFetchRun" where
  "safeFetch fetch rnd retry =
     (let maxR = (case retry of None \<Rightarrow> 0 | Some p \<Rightarrow> maxRetries p);
          baseDelay = (case retry of None \<Rightarrow> 300 | Some p \<Rightarrow> baseDelayMs p);
          maxDelay = (case retry of None \<Rightarrow> 3000 | Some p \<Rightarrow> maxDelayMs p);
          retryStatuses = (case retry of None \<Rightarrow> [408, 429, 500, 502, 503, 504]
                           | Some p \<Rightarrow> retryOnStatuses p)
      in safeFetch_loop fetch rnd maxR baseDelay maxDelay retryStatuses 0 [])"

text \<open>An outcome after which the loop goes round again while retries are left.\<close>

definition retryable :: "nat list \<Rightarrow> FetchOutcome \<Rightarrow> bool" where
  "retryable retryStatuses out =
     (case out of Resolved response \<Rightarrow> \<not> ok response \<and> status response \<in> set retryStatuses
      | Rejected err \<Rightarrow> True)"

text \<open>What \<open>safeFetch\<close> hands to its caller for the outcome of its last call.\<close>

definition deliver :: "FetchOutcome \<Rightarrow> SafeFetchResult" where
  "deliver out = (case out of Resolved response \<Rightarrow> Returned response | Rejected err \<Rightarrow> Thrown err)"

text \<open>
  What a run of the loop, entered with counter \<open>a\<close> and the delays \<open>slept\<close> so far,
  has done when it ends: its last call has an index \<open>k\<close> between \<open>a\<close> and the number of
  retries, the result is that call's outcome, the calls before it were retryable, and a
  delay was slept after each of them.
\<close>

definition loop_post ::
    "(nat \<Rightarrow> FetchOutcome) \<Rightarrow> (nat \<Rightarrow> real) \<Rightarrow> nat \<Rightarrow> real \<Rightarrow> real \<Rightarrow> nat list
       \<Rightarrow> nat \<Rightarrow> real list \<Rightarrow> SafeFetchRun \<Rightarrow> bool" where
  "loop_post fetch rnd N b m rs a slept run \<longleftrightarrow>
     (\<exists>k. a \<le> k \<and> k \<le> N \<and> attempts run = Suc k
        \<and> result run = deliver (fetch k)
        \<and> (\<forall>i. a \<le> i \<and> i < k \<longrightarrow> retryable rs (fetch i))
        \<and> (k < N \<longrightarrow> \<not> retryable rs (fetch k))
        \<and> delays run = slept @ map (\<lambda>i. computeBackoff i b m (rnd i)) [a..<k])"

text \<open>A server that answers 202 once and 200 afterwards, and a policy that asks to retry on 202.\<close>

definition acceptedThenOk :: "nat \<Rightarrow> FetchOutcome" where
  "acceptedThenOk i =
     (if i = 0 then Resolved \<lparr> status = 202, body = ''pending'' \<rparr>
      else Resolved \<lparr> status = 200, body = ''done'' \<rparr>)"

definition retryOnAccepted :: RetryPolicy where
  "retryOnAccepted = \<lparr> maxRetries = 1, baseDelayMs = 300, maxDelayMs = 3000,
                         retryOnStatuses = [202] \<rparr>"

text \<open>A server that answers 503 twice, then fails in transport, then answers 200.\<close>

definition flakyServer :: "nat \<Rightarrow> FetchOutcome" where
  "flakyServer i =
     (if i < 2 then Resolved \<lparr> status = 503, body = ''busy'' \<rparr>
      else if i = 2 then Rejected ''ECONNRESET''
      else Resolved \<lparr> status = 200, body = ''done'' \<rparr>)"

definition demoPolicy :: RetryPolicy where
  "demoPolicy = \<lparr> maxRetries = 5, baseDelayMs = 300, maxDelayMs = 3000,
                    retryOnStatuses = [408, 429, 500, 502, 503, 504] \<rparr>"

text \<open>A server that cannot be reached.\<close>

definition deadServer :: "nat \<Rightarrow> FetchOutcome" where
  "deadServer i = Rejected ''ECONNREFUSED''"

section \<open>Position PnL (src/unnamed/part_002)\<close>

text \<open>
  These functions test their price with \<open>Number.isFinite\<close>, so here a \<open>number\<close> keeps
  its non-finite values: a finite real, the two infinities, or \<open>NaN\<close>. The arithmetic
  follows IEEE 754 on these cases; on finite operands it is exact (no rounding, no
  overflow, one zero).
\<close>

datatype jsnum = Fin real | PosInf | NegInf | NaN

text \<open>An optional argument of type \<open>number | null\<close>.\<close>

datatype jsval = Undefined | Null | Num jsnum

fun js_gt :: "jsnum \<Rightarrow> jsnum \<Rightarrow> bool" where
  "js_gt NaN b = False"
| "js_gt a NaN = False"
| "js_gt (Fin x) (Fin y) = (x > y)"
| "js_gt PosInf PosInf = False"
| "js_gt PosInf b = True"
| "js_gt NegInf b = False"
| "js_gt (Fin x) NegInf = True"
| "js_gt (Fin x) PosInf = False"

fun js_abs :: "jsnum \<Rightarrow> jsnum" where
  "js_abs (Fin x) = Fin \<bar>x\<bar>"
| "js_abs PosInf = PosInf"
| "js_abs NegInf = PosInf"
| "js_abs NaN = NaN"

fun js_neg :: "jsnum \<Rightarrow> jsnum" where
  "js_neg (Fin x) = Fin (- x)"
| "js_neg PosInf = NegInf"
| "js_neg NegInf = PosInf"
| "js_neg NaN = NaN"

fun js_sub :: "jsnum \<Rightarrow> jsnum \<Rightarrow> jsnum" where
  "js_sub NaN b = NaN"
| "js_sub a NaN = NaN"
| "js_sub (Fin x) (Fin y) = Fin (x - y)"
| "js_sub PosInf PosInf = NaN"
| "js_sub NegInf NegInf = NaN"
| "js_sub PosInf b = PosInf"
| "js_sub NegInf b = NegInf"
| "js_sub (Fin x) b = js_neg b"

fun js_mul :: "jsnum \<Rightarrow> jsnum \<Rightarrow> jsnum" where
  "js_mul NaN b = NaN"
| "js_mul a NaN = NaN"
| "js_mul (Fin x) (Fin y) = Fin (x * y)"
| "js_mul (Fin x) b = (if x = 0 then NaN else if x > 0 then b else js_neg b)"
| "js_mul a (Fin y) = (if y = 0 then NaN else if y > 0 then a else js_neg a)"
| "js_mul PosInf b = b"
| "js_mul NegInf b = js_neg b"

text \<open>\<open>Number.isFinite\<close> on an optional argument.\<close>

fun isFinite :: "jsval \<Rightarrow> bool" where
  "isFinite (Num (Fin x)) = True"
| "isFinite v = False"

text \<open>The value that the cast \<open>priceForPnl as number\<close> reads after the test passed.\<close>

fun asNumber :: "jsval \<Rightarrow> jsnum" where
  "asNumber (Num n) = n"
| "asNumber v = NaN"

text \<open>
  Modelled from the spec: the declaration of \<open>PositionSnapshot\<close> (module \<open>./strategy\<close>)
  is not among the sources. The specification's Position is
  \<open>{symbol, positionAmt, entryPrice}\<close>; the functions below read the last two.
\<close>

record PositionSnapshot =
  symbol :: string
  positionAmt :: jsnum
  entryPrice :: jsnum

text \<open>The local \<open>priceForPnl\<close> of both functions.\<close>

definition priceForPnl :: "PositionSnapshot \<Rightarrow> jsval \<Rightarrow> jsval \<Rightarrow> jsval" where
  "priceForPnl position bestBid bestAsk =
     (if js_gt (positionAmt position) (Fin 0) then bestBid else bestAsk)"

definition computeGrossPnl :: "PositionSnapshot \<Rightarrow> jsval \<Rightarrow> jsval \<Rightarrow> jsnum" where
  "computeGrossPnl position bestBid bestAsk =
     (let p = priceForPnl position bestBid bestAsk
      in if \<not> isFinite p then Fin 0
         else
           (let absAmt = js_abs (positionAmt position)
            in if js_gt (positionAmt position) (Fin 0)
               then js_mul (js_sub (asNumber p) (entryPrice position)) absAmt
               else js_mul (js_sub (entryPrice position) (asNumber p)) absAmt))"

text \<open>The parameter \<open>totalFees\<close> defaults to \<open>0\<close> when the caller leaves it out.\<close>

definition computePositionPnl ::
    "PositionSnapshot \<Rightarrow> jsval \<Rightarrow> jsval \<Rightarrow> jsnum option \<Rightarrow> jsnum" where
  "computePositionPnl position bestBid bestAsk totalFees =
     (let fees = (case totalFees of None \<Rightarrow> Fin 0 | Some f \<Rightarrow> f);
          p = priceForPnl position bestBid bestAsk
      in if \<not> isFinite p then Fin 0
         else
           (let absAmt = js_abs (positionAmt position);
                grossPnl =
                  (if js_gt (positionAmt position) (Fin 0)
                   then js_mul (js_sub (asNumber p) (entryPrice position)) absAmt
                   else js_mul (js_sub (entryPrice position) (asNumber p)) absAmt)
            in js_sub grossPnl fees))"

text \<open>A long and a short position of 0.002 entered at 50000.\<close>

definition longPosition :: PositionSnapshot where
  "longPosition = \<lparr> symbol = ''BTCUSDT'', positionAmt = Fin 0.002, entryPrice = Fin 50000 \<rparr>"

definition shortPosition :: PositionSnapshot where
  "shortPosition = \<lparr> symbol = ''BTCUSDT'', positionAmt = Fin (- 0.002), entryPrice = Fin 50000 \<rparr>"

section \<open>Risk manager: drawdown and emergency latch\<close>

lemma cumulativePnl_append:
  "k \<le> length ps \<Longrightarrow> cumulativePnl (ps @ qs) k = cumulativePnl ps k"
  by (simp add: cumulativePnl_def)

lemma cumulativePnl_all: "cumulativePnl ps (length ps) = sum_list ps"
  by (simp add: cumulativePnl_def)

lemma runningPeak_append:
  "k \<le> length ps \<Longrightarrow> runningPeak (ps @ qs) k = runningPeak ps k"
proof -
  assume k: "k \<le> length ps"
  have "cumulativePnl (ps @ qs) ` {0..k} = cumulativePnl ps ` {0..k}"
    by (rule image_cong) (use k in \<open>auto simp: cumulativePnl_append\<close>)
  then show ?thesis by (simp add: runningPeak_def)
qed

lemma runningPeak_Suc:
  "runningPeak ps (Suc k) = max (cumulativePnl ps (Suc k)) (runningPeak ps k)"
proof -
  have "{0..Suc k} = insert (Suc k) {0..k}" by auto
  then show ?thesis by (simp add: runningPeak_def)
qed

lemma runningPeak_snoc:
  "runningPeak (ps @ [p]) (Suc (length ps)) = max (sum_list ps + p) (runningPeak ps (length ps))"
proof -
  have "cumulativePnl (ps @ [p]) (Suc (length ps)) = sum_list ps + p"
    using cumulativePnl_all [of "ps @ [p]"] by simp
  then show ?thesis
    by (simp add: runningPeak_Suc runningPeak_append)
qed

lemma spec_drawdown_snoc:
  "spec_drawdown (ps @ [p]) =
     max (max (sum_list ps + p) (runningPeak ps (length ps)) - (sum_list ps + p))
         (spec_drawdown ps)"
proof -
  let ?f = "\<lambda>qs k. runningPeak qs k - cumulativePnl qs k"
  have set: "{0..length (ps @ [p])} = insert (Suc (length ps)) {0..length ps}" by auto
  have same: "?f (ps @ [p]) ` {0..length ps} = ?f ps ` {0..length ps}"
    by (rule image_cong) (auto simp: cumulativePnl_append runningPeak_append)
  have last: "?f (ps @ [p]) (Suc (length ps)) =
      max (sum_list ps + p) (runningPeak ps (length ps)) - (sum_list ps + p)"
    using cumulativePnl_all [of "ps @ [p]"] by (simp add: runningPeak_snoc)
  have "spec_drawdown (ps @ [p]) =
      Max (insert (?f (ps @ [p]) (Suc (length ps))) (?f (ps @ [p]) ` {0..length ps}))"
    unfolding spec_drawdown_def set by simp
  also have "\<dots> = max (?f (ps @ [p]) (Suc (length ps))) (Max (?f ps ` {0..length ps}))"
    unfolding same by simp
  finally show ?thesis
    unfolding last by (simp add: spec_drawdown_def)
qed

lemma spec_drawdown_Nil: "spec_drawdown [] = 0"
  by (simp add: spec_drawdown_def runningPeak_def cumulativePnl_def)

lemma runningPeak_Nil: "runningPeak [] 0 = 0"
  by (simp add: runningPeak_def cumulativePnl_def)

lemma spec_drawdown_mono: "spec_drawdown ps \<le> spec_drawdown (ps @ [p])"
  by (simp add: spec_drawdown_snoc)

lemma updateDrawdown_loop_spec:
  "updateDrawdown_loop ts (runningPeak ps (length ps)) (sum_list ps) (spec_drawdown ps)
     = spec_drawdown (ps @ map pnl ts)"
proof (induction ts arbitrary: ps)
  case Nil
  then show ?case by simp
next
  case (Cons t ts)
  have peak: "(if sum_list ps + pnl t > runningPeak ps (length ps) then sum_list ps + pnl t
               else runningPeak ps (length ps))
      = runningPeak (ps @ [pnl t]) (length (ps @ [pnl t]))"
    by (simp add: runningPeak_snoc max_def)
  have dd: "(if runningPeak (ps @ [pnl t]) (length (ps @ [pnl t])) - (sum_list ps + pnl t)
                 > spec_drawdown ps
             then runningPeak (ps @ [pnl t]) (length (ps @ [pnl t])) - (sum_list ps + pnl t)
             else spec_drawdown ps)
      = spec_drawdown (ps @ [pnl t])"
    by (simp add: spec_drawdown_snoc runningPeak_snoc max_def)
  have "updateDrawdown_loop (t # ts) (runningPeak ps (length ps)) (sum_list ps) (spec_drawdown ps)
      = updateDrawdown_loop ts (runningPeak (ps @ [pnl t]) (length (ps @ [pnl t])))
          (sum_list (ps @ [pnl t])) (spec_drawdown (ps @ [pnl t]))"
    by (simp only: updateDrawdown_loop.simps Let_def peak dd sum_list_append sum_list.Cons
        sum_list.Nil add_0_right)
  also have "\<dots> = spec_drawdown ((ps @ [pnl t]) @ map pnl ts)"
    by (rule Cons.IH)
  finally show ?case by simp
qed

lemma updateDrawdown_loop_eq:
  "updateDrawdown_loop ts 0 0 0 = spec_drawdown (map pnl ts)"
  using updateDrawdown_loop_spec [of ts "[]"]
  by (simp add: runningPeak_Nil spec_drawdown_Nil)

lemma recordTrade_history:
  "tradeHistory (recordTrade now p mk rm)
     = tradeHistory rm @ [\<lparr> timestamp = now, pnl = p, isMaker = mk \<rparr>]"
  by (simp add: recordTrade_def updateDrawdown_def Let_def)

lemma recordTrade_limits: "limits (recordTrade now p mk rm) = limits rm"
  by (simp add: recordTrade_def updateDrawdown_def Let_def)

lemma recordTrade_recordedPnl:
  "recordedPnl (recordTrade now p mk rm) = recordedPnl rm @ [p]"
  by (simp add: recordedPnl_def recordTrade_history)

lemma recordTrade_drawdown:
  "currentDrawdown (state (recordTrade now p mk rm)) = spec_drawdown (recordedPnl rm @ [p])"
  by (simp add: recordTrade_def updateDrawdown_def Let_def updateDrawdown_loop_eq recordedPnl_def)

lemma recordTrade_emergency:
  "emergencyStopTriggered (state (recordTrade now p mk rm))
     = (emergencyStopTriggered (state rm)
        \<or> spec_drawdown (recordedPnl rm @ [p]) \<ge> emergencyStopLoss (limits rm))"
  by (simp add: recordTrade_def updateDrawdown_def Let_def updateDrawdown_loop_eq recordedPnl_def)

lemma latch_sound_new: "latch_sound (newRiskManager lims)"
  by (simp add: latch_sound_def newRiskManager_def recordedPnl_def spec_drawdown_Nil)

lemma latch_sound_call: "latch_sound rm \<Longrightarrow> latch_sound (applyCall rm c)"
proof (cases c)
  case (RecordTrade now p mk)
  assume "latch_sound rm"
  then show ?thesis
    using spec_drawdown_mono [of "recordedPnl rm" p]
    by (auto simp: RecordTrade latch_sound_def recordTrade_drawdown recordTrade_emergency
        recordTrade_recordedPnl recordTrade_limits)
next
  case ResetDailyStats
  assume "latch_sound rm"
  then show ?thesis
    by (simp add: ResetDailyStats latch_sound_def resetDailyStats_def recordedPnl_def)
next
  case ResetEmergencyStop
  assume "latch_sound rm"
  then show ?thesis
    by (simp add: ResetEmergencyStop latch_sound_def resetEmergencyStop_def recordedPnl_def)
qed

lemma applyCall_limits: "limits (applyCall rm c) = limits rm"
  by (cases c) (simp_all add: recordTrade_limits resetDailyStats_def resetEmergencyStop_def)

lemma applyCalls_limits: "limits (applyCalls rm cs) = limits rm"
  unfolding applyCalls_def by (induction cs arbitrary: rm) (simp_all add: applyCall_limits)

lemma latch_sound_calls: "latch_sound rm \<Longrightarrow> latch_sound (applyCalls rm cs)"
  unfolding applyCalls_def by (induction cs arbitrary: rm) (simp_all add: latch_sound_call)

lemma applyCall_keeps_latch:
  "emergencyStopTriggered (state rm) \<Longrightarrow> c \<noteq> ResetEmergencyStop
     \<Longrightarrow> emergencyStopTriggered (state (applyCall rm c))"
  by (cases c) (simp_all add: recordTrade_emergency resetDailyStats_def)

lemma applyCalls_keeps_latch:
  "emergencyStopTriggered (state rm) \<Longrightarrow> ResetEmergencyStop \<notin> set cs
     \<Longrightarrow> emergencyStopTriggered (state (applyCalls rm cs))"
  unfolding applyCalls_def
proof (induction cs arbitrary: rm)
  case Nil
  then show ?case by simp
next
  case (Cons c cs)
  from Cons.prems have "emergencyStopTriggered (state (applyCall rm c))"
    by (intro applyCall_keeps_latch) auto
  moreover from Cons.prems have "ResetEmergencyStop \<notin> set cs" by simp
  ultimately show ?case using Cons.IH by simp
qed

lemma recordTrade_explicit:
  "recordTrade now p mk
     \<lparr> limits = L,
       state = \<lparr> currentDrawdown = d, consecutiveLosses = c, dailyLoss = dl,
                 lastTradeTime = lt, isInCooldown = ic, emergencyStopTriggered = e \<rparr>,
       tradeHistory = h \<rparr>
   = \<lparr> limits = L,
       state = \<lparr> currentDrawdown =
                   updateDrawdown_loop (h @ [\<lparr> timestamp = now, pnl = p, isMaker = mk \<rparr>]) 0 0 0,
                 consecutiveLosses = (if p < 0 then Suc c else 0),
                 dailyLoss = (if p < 0 then dl + \<bar>p\<bar> else dl),
                 lastTradeTime = now,
                 isInCooldown = (ic \<or> real (if p < 0 then Suc c else 0) \<ge> maxConsecutiveLosses L),
                 emergencyStopTriggered =
                   (e \<or> updateDrawdown_loop (h @ [\<lparr> timestamp = now, pnl = p, isMaker = mk \<rparr>]) 0 0 0
                          \<ge> emergencyStopLoss L) \<rparr>,
       tradeHistory = h @ [\<lparr> timestamp = now, pnl = p, isMaker = mk \<rparr>] \<rparr>"
  by (simp add: recordTrade_def updateDrawdown_def Let_def)

text \<open>
  Claim C1. After every \<open>recordTrade\<close> on a manager reached from the constructor by any
  sequence of calls, the recorded PnL sequence has grown by the new PnL, the stored
  \<open>currentDrawdown\<close> is the maximum over all prefixes of that sequence of running peak
  minus cumulative PnL (peak starting at \<open>0\<close>), and the emergency latch is set exactly
  when that drawdown has reached \<open>emergencyStopLoss\<close>. A set latch stays set under all
  later calls other than \<open>resetEmergencyStop\<close>, which clears it.
\<close>

theorem recordTrade_drawdown_latch:
  "let rm = applyCalls (newRiskManager lims) cs;
       rm' = recordTrade now p mk rm;
       dd = spec_drawdown (recordedPnl rm')
   in recordedPnl rm' = recordedPnl rm @ [p]
      \<and> currentDrawdown (state rm') = dd
      \<and> (emergencyStopTriggered (state rm') \<longleftrightarrow> dd \<ge> emergencyStopLoss lims)
      \<and> (emergencyStopTriggered (state rm') \<and> ResetEmergencyStop \<notin> set later
            \<longrightarrow> emergencyStopTriggered (state (applyCalls rm' later)))
      \<and> \<not> emergencyStopTriggered (state (resetEmergencyStop rm'))"
proof -
  define rm where "rm = applyCalls (newRiskManager lims) cs"
  define rm' where "rm' = recordTrade now p mk rm"
  have lim: "limits rm = lims"
    by (simp add: rm_def applyCalls_limits newRiskManager_def)
  have "latch_sound rm"
    unfolding rm_def by (rule latch_sound_calls [OF latch_sound_new])
  then have "latch_sound (applyCall rm (RecordTrade now p mk))"
    by (rule latch_sound_call)
  then have sound: "latch_sound rm'"
    by (simp add: rm'_def)
  have pnl: "recordedPnl rm' = recordedPnl rm @ [p]"
    by (simp add: rm'_def recordTrade_recordedPnl)
  have dd: "currentDrawdown (state rm') = spec_drawdown (recordedPnl rm')"
    using sound by (simp add: latch_sound_def)
  have iff: "emergencyStopTriggered (state rm')
      \<longleftrightarrow> spec_drawdown (recordedPnl rm') \<ge> emergencyStopLoss lims"
    using sound lim
    by (auto simp: latch_sound_def rm'_def recordTrade_limits recordTrade_emergency
        recordTrade_recordedPnl)
  have keep: "emergencyStopTriggered (state rm') \<and> ResetEmergencyStop \<notin> set later
      \<longrightarrow> emergencyStopTriggered (state (applyCalls rm' later))"
    by (simp add: applyCalls_keeps_latch)
  have reset: "\<not> emergencyStopTriggered (state (resetEmergencyStop rm'))"
    by (simp add: resetEmergencyStop_def)
  show ?thesis
    unfolding Let_def rm_def [symmetric] rm'_def [symmetric]
    using pnl dd iff keep reset by simp
qed

text \<open>
  The claim at a concrete run: PnL \<open>1, -3, 1\<close> with \<open>emergencyStopLoss = 2\<close> gives the
  drawdown \<open>3\<close>, the latch is set and survives a daily reset and a winning trade.
\<close>

theorem recordTrade_drawdown_latch_witness:
  "spec_drawdown [1, -3, 1] = 3
   \<and> currentDrawdown (state (applyCalls (newRiskManager demoLimits)
        [RecordTrade 10 1 False, RecordTrade 20 (-3) False, RecordTrade 30 1 True])) = 3
   \<and> emergencyStopTriggered (state (applyCalls (newRiskManager demoLimits)
        [RecordTrade 10 1 False, RecordTrade 20 (-3) False, RecordTrade 30 1 True,
         ResetDailyStats, RecordTrade 40 5 False]))
   \<and> \<not> emergencyStopTriggered (state (resetEmergencyStop (applyCalls (newRiskManager demoLimits)
        [RecordTrade 10 1 False, RecordTrade 20 (-3) False, RecordTrade 30 1 True])))"
  using recordTrade_drawdown_latch [of demoLimits
      "[RecordTrade 10 1 False, RecordTrade 20 (-3) False]" 30 1 True
      "[ResetDailyStats, RecordTrade 40 5 False]"]
  by (simp add: Let_def applyCalls_def recordTrade_explicit newRiskManager_def
      demoLimits_def recordedPnl_def resetDailyStats_def resetEmergencyStop_def)

section \<open>Risk manager: gate order\<close>

lemma heavyLosses_quiet_state:
  "applyCalls (newRiskManager quietLimits) heavyLosses =
     \<lparr> limits = quietLimits,
       state = \<lparr> currentDrawdown = 120, consecutiveLosses = 3, dailyLoss = 120,
                 lastTradeTime = 30, isInCooldown = True, emergencyStopTriggered = False \<rparr>,
       tradeHistory = [\<lparr> timestamp = 10, pnl = -40, isMaker = False \<rparr>,
                       \<lparr> timestamp = 20, pnl = -40, isMaker = False \<rparr>,
                       \<lparr> timestamp = 30, pnl = -40, isMaker = False \<rparr>] \<rparr>"
  by (simp add: applyCalls_def heavyLosses_def newRiskManager_def recordTrade_explicit quietLimits_def)

lemma smallLosses_quiet_state:
  "applyCalls (newRiskManager quietLimits) smallLosses =
     \<lparr> limits = quietLimits,
       state = \<lparr> currentDrawdown = 3, consecutiveLosses = 3, dailyLoss = 3,
                 lastTradeTime = 30, isInCooldown = True, emergencyStopTriggered = False \<rparr>,
       tradeHistory = [\<lparr> timestamp = 10, pnl = -1, isMaker = False \<rparr>,
                       \<lparr> timestamp = 20, pnl = -1, isMaker = False \<rparr>,
                       \<lparr> timestamp = 30, pnl = -1, isMaker = False \<rparr>] \<rparr>"
  by (simp add: applyCalls_def smallLosses_def newRiskManager_def recordTrade_explicit quietLimits_def)

text \<open>
  Claim C2. \<open>canOpenPosition\<close> evaluates its six gates in the fixed priority order
  (1) emergency stop, (2) active cooldown, (3) position size, (4) loss streak,
  (5) daily loss, (6) drawdown, and returns the reason of the first gate that fails. In
  particular, for a state that violates both the cooldown gate and the daily-loss gate,
  the cooldown, checked before the daily loss, decides: the reason is the cooldown
  reason whenever the one gate above it, the emergency stop, passes; it is the
  emergency-stop reason when that gate fails; and it is never the daily-loss reason.
\<close>

theorem canOpenPosition_gate_order:
  "canOpenPosition now rm proposedSize = firstFailing (gates now rm proposedSize)
   \<and> (\<not> emergencyStopTriggered (state rm) \<and> cooldownGate now rm \<and> dailyLossGate rm \<longrightarrow>
        reason (canOpenPosition now rm proposedSize) = Some Cooldown)
   \<and> (cooldownGate now rm \<and> dailyLossGate rm \<longrightarrow>
        reason (canOpenPosition now rm proposedSize)
          = Some (if emergencyStopTriggered (state rm) then EmergencyStop else Cooldown)
        \<and> (\<forall>a b. reason (canOpenPosition now rm proposedSize) \<noteq> Some (DailyLossExceeded a b)))"
  by (simp add: canOpenPosition_def gates_def cooldownGate_def dailyLossGate_def)

text \<open>
  After three losses of 40 under \<open>quietLimits\<close> the manager is in cooldown, the daily
  loss of 120 exceeds the limit of 100 and the latch is not set: asked within the
  cooldown period, it answers with the cooldown reason, not with the daily-loss reason.
\<close>

theorem canOpenPosition_gate_order_witness:
  "cooldownGate 1000 (applyCalls (newRiskManager quietLimits) heavyLosses)
   \<and> dailyLossGate (applyCalls (newRiskManager quietLimits) heavyLosses)
   \<and> \<not> emergencyStopTriggered (state (applyCalls (newRiskManager quietLimits) heavyLosses))
   \<and> reason (canOpenPosition 1000 (applyCalls (newRiskManager quietLimits) heavyLosses) 0.5)
       = Some Cooldown
   \<and> reason (canOpenPosition 1000 (applyCalls (newRiskManager quietLimits) heavyLosses) 0.5)
       \<noteq> Some (DailyLossExceeded 120 100)"
  using canOpenPosition_gate_order
    [of 1000 "applyCalls (newRiskManager quietLimits) heavyLosses" "0.5"]
  unfolding heavyLosses_quiet_state
  by (simp add: cooldownGate_def dailyLossGate_def quietLimits_def gates_def)

section \<open>Risk manager: loss streak\<close>

lemma smallLosses_state:
  "applyCalls (newRiskManager demoLimits) smallLosses =
     \<lparr> limits = demoLimits,
       state = \<lparr> currentDrawdown = 3, consecutiveLosses = 3, dailyLoss = 3,
                 lastTradeTime = 30, isInCooldown = True, emergencyStopTriggered = True \<rparr>,
       tradeHistory = [\<lparr> timestamp = 10, pnl = -1, isMaker = False \<rparr>,
                       \<lparr> timestamp = 20, pnl = -1, isMaker = False \<rparr>,
                       \<lparr> timestamp = 30, pnl = -1, isMaker = False \<rparr>] \<rparr>"
  by (simp add: applyCalls_def smallLosses_def newRiskManager_def recordTrade_explicit demoLimits_def)

lemma three_losses_state:
  assumes "p1 < 0" "p2 < 0" "p3 < 0"
  shows "applyCalls (newRiskManager lims)
           [RecordTrade t1 p1 m1, RecordTrade t2 p2 m2, RecordTrade t3 p3 m3] =
     \<lparr> limits = lims,
       state = \<lparr> currentDrawdown = - (p1 + p2 + p3), consecutiveLosses = 3,
                 dailyLoss = - (p1 + p2 + p3), lastTradeTime = t3,
                 isInCooldown = (maxConsecutiveLosses lims \<le> 3),
                 emergencyStopTriggered = (emergencyStopLoss lims \<le> - (p1 + p2 + p3)) \<rparr>,
       tradeHistory = [\<lparr> timestamp = t1, pnl = p1, isMaker = m1 \<rparr>,
                       \<lparr> timestamp = t2, pnl = p2, isMaker = m2 \<rparr>,
                       \<lparr> timestamp = t3, pnl = p3, isMaker = m3 \<rparr>] \<rparr>"
  using assms
  by (auto simp add: applyCalls_def newRiskManager_def recordTrade_explicit numeral_3_eq_3)

text \<open>
  Claim C8, as amended. With \<open>maxConsecutiveLosses = 3\<close>, after three losing trades on a
  fresh manager \<open>canOpenPosition\<close> refuses and \<open>isInCooldown\<close> is set. The reason is
  that of the first failing gate: the emergency stop when the accumulated loss has
  reached \<open>emergencyStopLoss\<close>, else the cooldown while less than \<open>cooldownPeriod\<close> has
  passed since the third trade, else the position size when the proposed size exceeds
  the limit, and only otherwise the loss streak.
\<close>

theorem loss_streak_blocks:
  assumes "maxConsecutiveLosses lims = 3" and "p1 < 0" and "p2 < 0" and "p3 < 0"
  shows "let rm = applyCalls (newRiskManager lims)
                    [RecordTrade t1 p1 m1, RecordTrade t2 p2 m2, RecordTrade t3 p3 m3];
             d = canOpenPosition now rm proposedSize
         in \<not> allowed d
            \<and> isInCooldown (state rm)
            \<and> consecutiveLosses (state rm) = 3
            \<and> emergencyStopTriggered (state rm) = (- (p1 + p2 + p3) \<ge> emergencyStopLoss lims)
            \<and> reason d = Some
                 (if emergencyStopTriggered (state rm) then EmergencyStop
                  else if now - t3 < cooldownPeriod lims then Cooldown
                  else if proposedSize > maxPositionSize lims
                    then PositionSizeExceeded proposedSize (maxPositionSize lims)
                  else ConsecutiveLossesExceeded 3 3)"
  unfolding three_losses_state [OF assms(2-4)] Let_def
  using assms(1) by (simp add: canOpenPosition_def)

text \<open>Once the cooldown period has passed, the reason is the loss streak.\<close>

theorem loss_streak_blocks_witness:
  "\<not> allowed (canOpenPosition 100000 (applyCalls (newRiskManager quietLimits) smallLosses) 0.5)
   \<and> isInCooldown (state (applyCalls (newRiskManager quietLimits) smallLosses))
   \<and> reason (canOpenPosition 100000 (applyCalls (newRiskManager quietLimits) smallLosses) 0.5)
       = Some (ConsecutiveLossesExceeded 3 3)"
  using loss_streak_blocks [of quietLimits "-1" "-1" "-1" 10 False 20 False 30 False 100000 "0.5"]
  by (simp add: smallLosses_def quietLimits_def Let_def)

text \<open>
  The claim as first stated fails: asked within the cooldown period, the manager answers
  with the cooldown reason, not with the loss-streak reason; and with
  \<open>emergencyStopLoss = 2\<close> the three losses of 1 set the latch, and the answer is the
  emergency-stop reason even after the cooldown period.
\<close>

theorem loss_streak_blocks_counterexample:
  "maxConsecutiveLosses quietLimits = 3
   \<and> reason (canOpenPosition 1000 (applyCalls (newRiskManager quietLimits) smallLosses) 0.5)
       = Some Cooldown
   \<and> reason (canOpenPosition 1000 (applyCalls (newRiskManager quietLimits) smallLosses) 0.5)
       \<noteq> Some (ConsecutiveLossesExceeded 3 3)
   \<and> maxConsecutiveLosses demoLimits = 3
   \<and> reason (canOpenPosition 100000 (applyCalls (newRiskManager demoLimits) smallLosses) 0.5)
       = Some EmergencyStop"
  unfolding smallLosses_quiet_state smallLosses_state
  by (simp add: canOpenPosition_def quietLimits_def demoLimits_def)

section \<open>Close strategy: price bounds and fee cover\<close>

lemma fee_rates_positive: "0 < LIMIT_MAKER" "0 < MARKET_TAKER"
  by (simp_all add: LIMIT_MAKER_def MARKET_TAKER_def)

lemma pos_scale_iff: "0 < a \<Longrightarrow> (0 < a * x) = (0 < x)" for a x :: real
  by (simp add: zero_less_mult_iff)

lemma calculateClosePrice_cover:
  assumes "\<not> (timedOut now m \<and> fallbackToOriginal (config m))"
  shows "calculateClosePrice now m entry amt sd bid ask =
     \<lparr> side = sd,
       price = (if sd = SELL
                then min (entry + (openFee entry amt + closeFee entry amt
                                    + entry * amt * minProfitMargin (config m)) / amt) bid
                else max (entry - (openFee entry amt + closeFee entry amt
                                    + entry * amt * minProfitMargin (config m)) / amt) ask),
       amount = amt,
       minProfitRequired = openFee entry amt + closeFee entry amt
                           + entry * amt * minProfitMargin (config m),
       isTimeout = False, strategy = profit_cover \<rparr>"
  using assms by (simp add: calculateClosePrice_def Let_def)

text \<open>
  Claim C3, as amended. For every call of \<open>calculateClosePrice\<close> that does not take the
  timeout fallback, with positive entry price and amount and a margin of at least \<open>0\<close>:
  the SELL close price is at most \<open>currentBid\<close>, the BUY close price is at least
  \<open>currentAsk\<close>, and \<open>minProfitRequired\<close> is \<open>openFee + closeFee\<close> plus the margin on the
  notional. So it is at least \<open>openFee + closeFee\<close>, and strictly more exactly when the
  configured margin is positive.
\<close>

theorem close_price_bounds_and_fee_cover:
  assumes "\<not> (timedOut now m \<and> fallbackToOriginal (config m))"
    and "0 < entry" and "0 < amt" and "0 \<le> minProfitMargin (config m)"
  shows "(price (calculateClosePrice now m entry amt SELL bid ask) \<le> bid)
     \<and> (price (calculateClosePrice now m entry amt BUY bid ask) \<ge> ask)
     \<and> minProfitRequired (calculateClosePrice now m entry amt sd bid ask)
          = openFee entry amt + closeFee entry amt + entry * amt * minProfitMargin (config m)
     \<and> minProfitRequired (calculateClosePrice now m entry amt sd bid ask)
          \<ge> openFee entry amt + closeFee entry amt
     \<and> (minProfitRequired (calculateClosePrice now m entry amt sd bid ask)
          > openFee entry amt + closeFee entry amt \<longleftrightarrow> 0 < minProfitMargin (config m))"
proof -
  have pos: "0 < entry * amt" using assms(2,3) by simp
  have ge: "0 \<le> entry * amt * minProfitMargin (config m)"
    using pos assms(4) by simp
  have iff: "0 < entry * amt * minProfitMargin (config m) \<longleftrightarrow> 0 < minProfitMargin (config m)"
    by (rule pos_scale_iff [OF pos])
  show ?thesis
    unfolding calculateClosePrice_cover [OF assms(1)]
    using ge iff by simp
qed

text \<open>The default configuration, four seconds after the strategy started.\<close>

theorem close_price_bounds_and_fee_cover_witness:
  "price (calculateClosePrice 5000 (startCloseStrategy 1000 defaultManager) 100 1 SELL 100.02 100.03)
     \<le> 100.02
   \<and> price (calculateClosePrice 5000 (startCloseStrategy 1000 defaultManager) 100 1 BUY 100.02 100.03)
     \<ge> 100.03
   \<and> minProfitRequired
        (calculateClosePrice 5000 (startCloseStrategy 1000 defaultManager) 100 1 SELL 100.02 100.03)
     > openFee 100 1 + closeFee 100 1"
  using close_price_bounds_and_fee_cover
    [of 5000 "startCloseStrategy 1000 defaultManager" 100 1 "100.02" "100.03" SELL]
  by (simp add: timedOut_def startCloseStrategy_def defaultManager_def
      newCloseStrategyManager_def)

text \<open>
  The claim as first stated fails for the margin \<open>0\<close>, which is at least \<open>0\<close>: then
  \<open>minProfitRequired\<close> equals \<open>openFee + closeFee\<close> and does not strictly exceed it.
\<close>

theorem close_price_bounds_and_fee_cover_counterexample:
  "\<not> timedOut 5000 (startCloseStrategy 1000 zeroMarginManager)
   \<and> 0 \<le> minProfitMargin (config (startCloseStrategy 1000 zeroMarginManager))
   \<and> minProfitRequired
        (calculateClosePrice 5000 (startCloseStrategy 1000 zeroMarginManager) 100 1 SELL 100.02 100.03)
       = openFee 100 1 + closeFee 100 1
   \<and> \<not> (minProfitRequired
        (calculateClosePrice 5000 (startCloseStrategy 1000 zeroMarginManager) 100 1 SELL 100.02 100.03)
       > openFee 100 1 + closeFee 100 1)"
  by (simp add: calculateClosePrice_def timedOut_def startCloseStrategy_def zeroMarginManager_def
      newCloseStrategyManager_def Let_def)

section \<open>Close strategy: market close\<close>

text \<open>
  Claim C6. For every close computation that does not take the timeout fallback,
  \<open>shouldUseMarketClose\<close> is true exactly when the potential profit at the current best
  price, \<open>(currentBid - entryPrice) * amount\<close> for SELL and
  \<open>(entryPrice - currentAsk) * amount\<close> for BUY, is below the computed
  \<open>minProfitRequired\<close>. With entry price 100, amount 1, maker fee 0.0001, taker fee
  0.00035 and margin 0.0001, a SELL close has \<open>minProfitRequired = 0.055\<close>, the close
  price is \<open>min 100.055 100.02 = 100.02\<close> at \<open>currentBid = 100.02\<close>, and
  \<open>shouldUseMarketClose\<close> is true.
\<close>

theorem market_close_iff:
  "(\<not> (timedOut now m \<and> fallbackToOriginal (config m)) \<longrightarrow>
      shouldUseMarketClose now m entry amt sd bid ask
        = (potentialProfit entry amt sd bid ask
             < minProfitRequired (calculateClosePrice now m entry amt sd bid ask))
      \<and> potentialProfit entry amt SELL bid ask = (bid - entry) * amt
      \<and> potentialProfit entry amt BUY bid ask = (entry - ask) * amt)
   \<and> (\<not> (timedOut now m \<and> fallbackToOriginal (config m))
        \<and> minProfitMargin (config m) = 0.0001 \<longrightarrow>
      LIMIT_MAKER = 0.0001 \<and> MARKET_TAKER = 0.00035
      \<and> minProfitRequired (calculateClosePrice now m 100 1 SELL 100.02 ask) = 0.055
      \<and> price (calculateClosePrice now m 100 1 SELL 100.02 ask) = min 100.055 100.02
      \<and> price (calculateClosePrice now m 100 1 SELL 100.02 ask) = 100.02
      \<and> shouldUseMarketClose now m 100 1 SELL 100.02 ask)"
proof (intro conjI impI)
  assume a: "\<not> (timedOut now m \<and> fallbackToOriginal (config m))"
  show "shouldUseMarketClose now m entry amt sd bid ask
        = (potentialProfit entry amt sd bid ask
             < minProfitRequired (calculateClosePrice now m entry amt sd bid ask))"
    unfolding shouldUseMarketClose_def calculateClosePrice_cover [OF a] by (simp add: Let_def)
  show "potentialProfit entry amt SELL bid ask = (bid - entry) * amt"
    by (simp add: potentialProfit_def)
  show "potentialProfit entry amt BUY bid ask = (entry - ask) * amt"
    by (simp add: potentialProfit_def)
next
  assume b: "\<not> (timedOut now m \<and> fallbackToOriginal (config m))
        \<and> minProfitMargin (config m) = 0.0001"
  then have a: "\<not> (timedOut now m \<and> fallbackToOriginal (config m))"
    and mm: "minProfitMargin (config m) = 0.0001" by simp_all
  show "LIMIT_MAKER = 0.0001" by (simp add: LIMIT_MAKER_def)
  show "MARKET_TAKER = 0.00035" by (simp add: MARKET_TAKER_def)
  show req: "minProfitRequired (calculateClosePrice now m 100 1 SELL 100.02 ask) = 0.055"
    unfolding calculateClosePrice_cover [OF a]
    by (simp add: mm openFee_def closeFee_def LIMIT_MAKER_def MARKET_TAKER_def)
  show "price (calculateClosePrice now m 100 1 SELL 100.02 ask) = min 100.055 100.02"
    unfolding calculateClosePrice_cover [OF a]
    by (simp add: mm openFee_def closeFee_def LIMIT_MAKER_def MARKET_TAKER_def)
  show "price (calculateClosePrice now m 100 1 SELL 100.02 ask) = 100.02"
    unfolding calculateClosePrice_cover [OF a]
    by (simp add: mm openFee_def closeFee_def LIMIT_MAKER_def MARKET_TAKER_def)
  show "shouldUseMarketClose now m 100 1 SELL 100.02 ask"
    unfolding shouldUseMarketClose_def calculateClosePrice_cover [OF a]
    by (simp add: mm openFee_def closeFee_def LIMIT_MAKER_def MARKET_TAKER_def
        potentialProfit_def Let_def)
qed

text \<open>
  The scenario on the default manager; at \<open>currentBid = 100.06\<close> the potential profit
  covers the requirement and the answer is false.
\<close>

theorem market_close_iff_witness:
  "shouldUseMarketClose 5000 (startCloseStrategy 1000 defaultManager) 100 1 SELL 100.02 100.03
   \<and> minProfitRequired
        (calculateClosePrice 5000 (startCloseStrategy 1000 defaultManager) 100 1 SELL 100.02 100.03)
       = 0.055
   \<and> potentialProfit 100 1 SELL 100.02 100.03 = 0.02
   \<and> \<not> shouldUseMarketClose 5000 (startCloseStrategy 1000 defaultManager) 100 1 SELL 100.06 100.07"
  using market_close_iff
    [of 5000 "startCloseStrategy 1000 defaultManager" 100 1 SELL "100.06" "100.07"]
    market_close_iff
    [of 5000 "startCloseStrategy 1000 defaultManager" 100 1 SELL "100.02" "100.03"]
  by (simp add: timedOut_def startCloseStrategy_def defaultManager_def
      newCloseStrategyManager_def potentialProfit_def calculateClosePrice_def Let_def
      openFee_def closeFee_def LIMIT_MAKER_def MARKET_TAKER_def)

section \<open>Close strategy: timeout fallback\<close>

text \<open>
  Claim C7. A strategy started at \<open>startTime\<close> with \<open>fallbackToOriginal\<close> configured,
  asked for a close price at a time \<open>now\<close> with \<open>now - startTime > timeoutMs\<close>, returns the
  current best price (\<open>currentBid\<close> for SELL, \<open>currentAsk\<close> for BUY) with
  \<open>minProfitRequired = 0\<close>, \<open>isTimeout = true\<close> and the strategy \<open>original\<close>.
\<close>

theorem timeout_fallback:
  assumes "fallbackToOriginal (config m)" and "now - startTime > timeoutMs (config m)"
  shows "calculateClosePrice now (startCloseStrategy startTime m) entry amt sd bid ask =
     \<lparr> side = sd, price = (if sd = SELL then bid else ask), amount = amt,
       minProfitRequired = 0, isTimeout = True, strategy = original \<rparr>"
  using assms by (simp add: calculateClosePrice_def timedOut_def startCloseStrategy_def)

text \<open>The default manager (timeout 60000) asked 69 seconds after its start.\<close>

theorem timeout_fallback_witness:
  "calculateClosePrice 70000 (startCloseStrategy 1000 defaultManager) 100 1 SELL 100.02 100.03 =
     \<lparr> side = SELL, price = 100.02, amount = 1,
       minProfitRequired = 0, isTimeout = True, strategy = original \<rparr>
   \<and> calculateClosePrice 70000 (startCloseStrategy 1000 defaultManager) 100 1 BUY 100.02 100.03 =
     \<lparr> side = BUY, price = 100.03, amount = 1,
       minProfitRequired = 0, isTimeout = True, strategy = original \<rparr>"
  using timeout_fallback [of defaultManager 70000 1000 100 1 SELL "100.02" "100.03"]
    timeout_fallback [of defaultManager 70000 1000 100 1 BUY "100.02" "100.03"]
  by (simp add: defaultManager_def newCloseStrategyManager_def)

section \<open>Volume optimizer: the per-minute cap\<close>

lemma foldl_volume: "foldl (\<lambda>sum t. sum + volume t) acc ts = acc + sum_list (map volume ts)"
  by (induction ts arbitrary: acc) simp_all

lemma getRecentVolume_sum:
  "getRecentVolume now opt timeWindow =
     sum_list (map volume (filter (\<lambda>t. now - v_timestamp t \<le> timeWindow) (v_tradeHistory opt)))"
  by (simp add: getRecentVolume_def foldl_volume)

lemma usedVolume_state:
  "usedVolume vol =
     \<lparr> v_config = demoVolumeConfig,
       v_tradeHistory = [\<lparr> v_timestamp = 1000, volume = vol, v_pnl = 0, holdTime = 500,
                           v_isMaker = True \<rparr>],
       v_lastTradeTime = 1000, sessionStartTime = 0 \<rparr>"
  by (simp add: usedVolume_def recordVolumeTrade_def newVolumeStrategyOptimizer_def)

text \<open>
  Claim C5, as amended. \<open>canExecuteTrade\<close> allows a trade exactly when the time since the
  last trade is at least \<open>minTradeInterval\<close> and the volume recorded in the last 60
  seconds plus the proposed volume does not exceed \<open>maxVolumePerMinute\<close>. When it rejects
  because the cap would be exceeded, the suggested volume is the larger of \<open>0.001\<close> and
  the volume still free under the cap: it fills the cap exactly when at least \<open>0.001\<close> is
  free, and is \<open>0.001\<close>, which overshoots the cap, when less is free.
\<close>

theorem canExecuteTrade_volume_cap:
  "let d = canExecuteTrade now now' opt proposedVolume;
       used = getRecentVolume now' opt 60000;
       cap = maxVolumePerMinute (v_config opt)
   in used = sum_list (map volume
               (filter (\<lambda>t. now' - v_timestamp t \<le> 60000) (v_tradeHistory opt)))
      \<and> (allowed d \<longleftrightarrow>
            now - v_lastTradeTime opt \<ge> minTradeInterval (v_config opt)
            \<and> used + proposedVolume \<le> cap)
      \<and> (now - v_lastTradeTime opt \<ge> minTradeInterval (v_config opt)
            \<and> used + proposedVolume > cap \<longrightarrow>
          \<not> allowed d
          \<and> reason d = Some (VolumeLimitExceeded (used + proposedVolume) cap)
          \<and> suggestedVolume d = Some (max 0.001 (cap - used))
          \<and> (cap - used \<ge> 0.001 \<longrightarrow> suggestedVolume d = Some (cap - used)
                \<and> (cap - used) + used = cap)
          \<and> (cap - used < 0.001 \<longrightarrow> suggestedVolume d = Some 0.001 \<and> 0.001 + used > cap))"
  by (auto simp add: Let_def canExecuteTrade_def getRecentVolume_sum)

text \<open>With 60 of 100 used, a proposal of 50 is rejected with the suggestion 40, which is allowed.\<close>

theorem canExecuteTrade_volume_cap_witness:
  "\<not> allowed (canExecuteTrade 5000 5000 (usedVolume 60) 50)
   \<and> getRecentVolume 5000 (usedVolume 60) 60000 = 60
   \<and> suggestedVolume (canExecuteTrade 5000 5000 (usedVolume 60) 50) = Some 40
   \<and> allowed (canExecuteTrade 5000 5000 (usedVolume 60) 40)"
  using canExecuteTrade_volume_cap [of 5000 5000 "usedVolume 60" 50]
    canExecuteTrade_volume_cap [of 5000 5000 "usedVolume 60" 40]
  unfolding usedVolume_state
  by (simp add: Let_def getRecentVolume_def demoVolumeConfig_def)

text \<open>
  The claim as first stated fails when the cap is used up: with 100 of 100 used, a
  proposal of 1 is rejected for the cap, the suggestion is \<open>0.001\<close>, and suggestion plus
  used volume is \<open>100.001\<close>, not the cap.
\<close>

theorem canExecuteTrade_volume_cap_counterexample:
  "\<not> allowed (canExecuteTrade 5000 5000 (usedVolume 100) 1)
   \<and> reason (canExecuteTrade 5000 5000 (usedVolume 100) 1) = Some (VolumeLimitExceeded 101 100)
   \<and> getRecentVolume 5000 (usedVolume 100) 60000 = 100
   \<and> maxVolumePerMinute (v_config (usedVolume 100)) = 100
   \<and> suggestedVolume (canExecuteTrade 5000 5000 (usedVolume 100) 1) = Some 0.001
   \<and> 0.001 + getRecentVolume 5000 (usedVolume 100) 60000
        \<noteq> maxVolumePerMinute (v_config (usedVolume 100))"
  unfolding usedVolume_state
  by (simp add: canExecuteTrade_def getRecentVolume_def demoVolumeConfig_def Let_def)

section \<open>Position PnL: missing market data\<close>

lemma isFinite_iff: "isFinite v \<longleftrightarrow> (\<exists>x. v = Num (Fin x))"
  by (cases v rule: isFinite.cases) simp_all

text \<open>
  Claim C10. For every position, when the reference price that the functions select
  (the best bid for \<open>positionAmt > 0\<close>, the best ask otherwise) is \<open>null\<close>, \<open>undefined\<close> or
  not a finite number, \<open>computePositionPnl\<close> and \<open>computeGrossPnl\<close> both return \<open>0\<close>.
\<close>

theorem pnl_zero_without_price:
  "(\<not> isFinite (priceForPnl position bestBid bestAsk) \<longrightarrow>
      computePositionPnl position bestBid bestAsk totalFees = Fin 0
      \<and> computeGrossPnl position bestBid bestAsk = Fin 0)
   \<and> priceForPnl position bestBid bestAsk
       = (if js_gt (positionAmt position) (Fin 0) then bestBid else bestAsk)
   \<and> \<not> isFinite Undefined \<and> \<not> isFinite Null \<and> \<not> isFinite (Num NaN)
   \<and> \<not> isFinite (Num PosInf) \<and> \<not> isFinite (Num NegInf)
   \<and> (isFinite v \<longleftrightarrow> (\<exists>x. v = Num (Fin x)))"
  by (simp add: computePositionPnl_def computeGrossPnl_def priceForPnl_def Let_def isFinite_iff)

text \<open>A long position with a \<open>null\<close> bid; a short position with a \<open>NaN\<close> or missing ask.\<close>

theorem pnl_zero_without_price_witness:
  "computePositionPnl longPosition Null (Num (Fin 50100)) (Some (Fin 0.05)) = Fin 0
   \<and> computeGrossPnl longPosition Null (Num (Fin 50100)) = Fin 0
   \<and> computePositionPnl shortPosition (Num (Fin 49900)) (Num NaN) (Some (Fin 0.05)) = Fin 0
   \<and> computeGrossPnl shortPosition (Num (Fin 49900)) Undefined = Fin 0"
  using pnl_zero_without_price [of longPosition Null "Num (Fin 50100)" "Some (Fin 0.05)"]
    pnl_zero_without_price [of shortPosition "Num (Fin 49900)" "Num NaN" "Some (Fin 0.05)"]
    pnl_zero_without_price [of shortPosition "Num (Fin 49900)" Undefined None]
  by (simp add: priceForPnl_def longPosition_def shortPosition_def)

section \<open>Position PnL: gross and net\<close>

text \<open>
  Claim C9. For an open position and a finite mark price (the best bid for a long, the
  best ask for a short), the gross PnL is \<open>(markPrice - entryPrice) * |positionAmt|\<close>
  when \<open>positionAmt > 0\<close> and \<open>(entryPrice - markPrice) * |positionAmt|\<close> when
  \<open>positionAmt < 0\<close>, and the net PnL is the gross PnL minus the total fees that the
  caller supplies. The first two parts state it in the arithmetic of \<open>number\<close>, the next
  two for finite entry price, amount and fees in real arithmetic.
\<close>

theorem position_pnl_formula:
  "(js_gt (positionAmt position) (Fin 0) \<and> bestBid = Num (Fin mark) \<longrightarrow>
      computeGrossPnl position bestBid bestAsk
        = js_mul (js_sub (Fin mark) (entryPrice position)) (js_abs (positionAmt position)))
   \<and> (js_gt (Fin 0) (positionAmt position) \<and> bestAsk = Num (Fin mark) \<longrightarrow>
      computeGrossPnl position bestBid bestAsk
        = js_mul (js_sub (entryPrice position) (Fin mark)) (js_abs (positionAmt position)))
   \<and> (positionAmt position = Fin amt \<and> entryPrice position = Fin entry
        \<and> 0 < amt \<and> bestBid = Num (Fin mark) \<longrightarrow>
      computeGrossPnl position bestBid bestAsk = Fin ((mark - entry) * \<bar>amt\<bar>)
      \<and> computePositionPnl position bestBid bestAsk (Some (Fin fees))
           = Fin ((mark - entry) * \<bar>amt\<bar> - fees))
   \<and> (positionAmt position = Fin amt \<and> entryPrice position = Fin entry
        \<and> amt < 0 \<and> bestAsk = Num (Fin mark) \<longrightarrow>
      computeGrossPnl position bestBid bestAsk = Fin ((entry - mark) * \<bar>amt\<bar>)
      \<and> computePositionPnl position bestBid bestAsk (Some (Fin fees))
           = Fin ((entry - mark) * \<bar>amt\<bar> - fees))
   \<and> (isFinite (priceForPnl position bestBid bestAsk) \<longrightarrow>
      computePositionPnl position bestBid bestAsk (Some totalFees)
        = js_sub (computeGrossPnl position bestBid bestAsk) totalFees
      \<and> computePositionPnl position bestBid bestAsk None
        = js_sub (computeGrossPnl position bestBid bestAsk) (Fin 0))"
proof -
  have neg: "js_gt (Fin 0) a \<Longrightarrow> \<not> js_gt a (Fin 0)" for a
    by (cases a) simp_all
  show ?thesis
    by (auto simp add: computePositionPnl_def computeGrossPnl_def priceForPnl_def Let_def neg)
qed

text \<open>A long marked at the bid 50100 and a short marked at the ask 49900, fees 0.05.\<close>

theorem position_pnl_formula_witness:
  "computeGrossPnl longPosition (Num (Fin 50100)) (Num (Fin 50101)) = Fin 0.2
   \<and> computePositionPnl longPosition (Num (Fin 50100)) (Num (Fin 50101)) (Some (Fin 0.05)) = Fin 0.15
   \<and> computeGrossPnl shortPosition (Num (Fin 49899)) (Num (Fin 49900)) = Fin 0.2
   \<and> computePositionPnl shortPosition (Num (Fin 49899)) (Num (Fin 49900)) (Some (Fin 0.05)) = Fin 0.15"
  using position_pnl_formula [of longPosition "Num (Fin 50100)" 50100 "Num (Fin 50101)"
      "0.002" 50000 "0.05" "Fin 0.05"]
    position_pnl_formula [of shortPosition "Num (Fin 49899)" 49900 "Num (Fin 49900)"
      "- 0.002" 50000 "0.05" "Fin 0.05"]
  by (simp add: longPosition_def shortPosition_def priceForPnl_def)

section \<open>Resilient request layer: bounded retry\<close>

lemma safeFetch_loop_retry:
  assumes "retryable rs (fetch a)" and "a < N"
  shows "safeFetch_loop fetch rnd N b m rs a slept
     = safeFetch_loop fetch rnd N b m rs (Suc a) (slept @ [computeBackoff a b m (rnd a)])"
  using assms
  by (subst safeFetch_loop.simps) (cases "fetch a"; simp add: retryable_def)

lemma safeFetch_loop_stop:
  assumes "\<not> (retryable rs (fetch a) \<and> a < N)"
  shows "safeFetch_loop fetch rnd N b m rs a slept
     = \<lparr> result = deliver (fetch a), attempts = Suc a, delays = slept \<rparr>"
  using assms
  by (subst safeFetch_loop.simps) (cases "fetch a"; auto simp add: retryable_def deliver_def)

lemma safeFetch_loop_post:
  "a \<le> N \<Longrightarrow> loop_post fetch rnd N b m rs a slept (safeFetch_loop fetch rnd N b m rs a slept)"
proof (induction "N - a" arbitrary: a slept)
  case 0
  then have "a = N" by simp
  then have "safeFetch_loop fetch rnd N b m rs a slept
      = \<lparr> result = deliver (fetch a), attempts = Suc a, delays = slept \<rparr>"
    by (intro safeFetch_loop_stop) simp
  then show ?case
    using \<open>a = N\<close> unfolding loop_post_def by (intro exI [of _ N]) auto
next
  case (Suc n)
  then have lt: "a < N" by simp
  show ?case
  proof (cases "retryable rs (fetch a)")
    case False
    then have "safeFetch_loop fetch rnd N b m rs a slept
        = \<lparr> result = deliver (fetch a), attempts = Suc a, delays = slept \<rparr>"
      by (intro safeFetch_loop_stop) simp
    then show ?thesis
      using False lt unfolding loop_post_def
      by (intro exI [of _ a]) auto
  next
    case True
    let ?slept = "slept @ [computeBackoff a b m (rnd a)]"
    have step: "safeFetch_loop fetch rnd N b m rs a slept
        = safeFetch_loop fetch rnd N b m rs (Suc a) ?slept"
      using True lt by (rule safeFetch_loop_retry [of rs fetch a N])
    have "n = N - Suc a" using Suc.hyps(2) by simp
    moreover have "Suc a \<le> N" using lt by simp
    ultimately have "loop_post fetch rnd N b m rs (Suc a) ?slept
        (safeFetch_loop fetch rnd N b m rs (Suc a) ?slept)"
      by (rule Suc.hyps(1))
    then obtain k where k: "Suc a \<le> k" "k \<le> N"
        "attempts (safeFetch_loop fetch rnd N b m rs (Suc a) ?slept) = Suc k"
        "result (safeFetch_loop fetch rnd N b m rs (Suc a) ?slept) = deliver (fetch k)"
        "\<forall>i. Suc a \<le> i \<and> i < k \<longrightarrow> retryable rs (fetch i)"
        "k < N \<longrightarrow> \<not> retryable rs (fetch k)"
        "delays (safeFetch_loop fetch rnd N b m rs (Suc a) ?slept)
           = ?slept @ map (\<lambda>i. computeBackoff i b m (rnd i)) [Suc a..<k]"
      unfolding loop_post_def by blast
    have all: "\<forall>i. a \<le> i \<and> i < k \<longrightarrow> retryable rs (fetch i)"
    proof (intro allI impI)
      fix i assume "a \<le> i \<and> i < k"
      then consider "i = a" | "Suc a \<le> i \<and> i < k" by linarith
      then show "retryable rs (fetch i)"
        using True k(5) by cases simp_all
    qed
    have "[a..<k] = a # [Suc a..<k]"
      using k(1) by (simp add: upt_conv_Cons)
    then have del: "delays (safeFetch_loop fetch rnd N b m rs (Suc a) ?slept)
        = slept @ map (\<lambda>i. computeBackoff i b m (rnd i)) [a..<k]"
      using k(7) by simp
    show ?thesis
      unfolding loop_post_def step
      using k(1,2,3,4,6) all del by (intro exI [of _ k]) simp
  qed
qed

lemma floor_whole_base:
  fixes r :: real
  assumes "0 \<le> r" and "r < 1" and "0 < b"
  shows "\<exists>j. 0 \<le> j \<and> j < real b
           \<and> real_of_int \<lfloor>real b * 2 ^ n + r * real b\<rfloor> = real b * 2 ^ n + j"
proof -
  have whole: "real b * 2 ^ n = of_int (int (b * 2 ^ n))" by simp
  have "\<lfloor>real b * 2 ^ n + r * real b\<rfloor> = int (b * 2 ^ n) + \<lfloor>r * real b\<rfloor>"
    unfolding whole by (simp only: floor_add_int add.commute)
  then have eq: "real_of_int \<lfloor>real b * 2 ^ n + r * real b\<rfloor>
      = real b * 2 ^ n + real_of_int \<lfloor>r * real b\<rfloor>"
    by simp
  have lo: "0 \<le> real_of_int \<lfloor>r * real b\<rfloor>"
    using assms(1) by simp
  have "r * real b < real b" using assms(2,3) by simp
  then have hi: "real_of_int \<lfloor>r * real b\<rfloor> < real b"
    by (meson floor_less_iff le_less_trans of_int_floor_le)
  show ?thesis using eq lo hi by blast
qed


lemma safeFetch_Some:
  "safeFetch fetch rnd (Some policy) =
     safeFetch_loop fetch rnd (maxRetries policy) (baseDelayMs policy) (maxDelayMs policy)
       (retryOnStatuses policy) 0 []"
  by (simp add: safeFetch_def)

lemma safeFetch_None: "attempts (safeFetch fetch rnd None) = 1"
  by (simp add: safeFetch_def safeFetch_loop_stop)

lemma deliver_Thrown: "deliver out = Thrown e \<longleftrightarrow> out = Rejected e"
  by (cases out) (simp_all add: deliver_def)

lemma deliver_Returned: "deliver out = Returned r \<longleftrightarrow> out = Resolved r"
  by (cases out) (simp_all add: deliver_def)

lemma flaky_run:
  "safeFetch flakyServer (\<lambda>i. 1 / 2) (Some demoPolicy) =
     \<lparr> result = Returned \<lparr> status = 200, body = ''done'' \<rparr>, attempts = 4,
       delays = [450, 750, 1350] \<rparr>"
  by (simp add: safeFetch_def demoPolicy_def safeFetch_loop.simps flakyServer_def ok_def
      computeBackoff_def)

lemma dead_run:
  "safeFetch deadServer (\<lambda>i. 0) (Some retryOnAccepted) =
     \<lparr> result = Thrown ''ECONNREFUSED'', attempts = 2, delays = [300] \<rparr>"
  by (simp add: safeFetch_def retryOnAccepted_def safeFetch_loop.simps deadServer_def
      computeBackoff_def)

lemma accepted_run:
  "safeFetch acceptedThenOk (\<lambda>i. 0) (Some retryOnAccepted) =
     \<lparr> result = Returned \<lparr> status = 202, body = ''pending'' \<rparr>, attempts = 1, delays = [] \<rparr>"
  by (simp add: safeFetch_def retryOnAccepted_def safeFetch_loop.simps acceptedThenOk_def ok_def)

text \<open>
  Claim C4, as amended. With \<open>maxRetries = N\<close>, for every sequence of fetch outcomes
  \<open>safeFetch\<close> makes at least one and at most \<open>N + 1\<close> calls. It goes round again only
  after a thrown error or a response that is not \<open>ok\<close> and whose status is in the
  retryable set, and only while retries are left. So it returns the first response that
  is \<open>ok\<close> or has a status outside the set, or else the response of call \<open>N + 1\<close>; and it
  throws only the error of call \<open>N + 1\<close>. The delay before retry \<open>n\<close> is
  \<open>min maxDelayMs (floor (baseDelayMs * 2^n + jitter))\<close> with
  \<open>jitter = random * baseDelayMs\<close>, which lies in \<open>[0, baseDelayMs)\<close> for a positive base;
  for a base that is a positive whole number this is
  \<open>min maxDelayMs (baseDelayMs * 2^n + j)\<close> for some \<open>j\<close> in \<open>[0, baseDelayMs)\<close>. Without a
  policy there is exactly one call. The results of \<open>Math.random()\<close> are taken to lie in
  \<open>[0, 1)\<close>.
\<close>

theorem safeFetch_bounded_retry:
  assumes rnd: "\<forall>i. 0 \<le> rnd i \<and> rnd i < 1"
  shows "let run = safeFetch fetch rnd (Some policy);
             N = maxRetries policy;
             base = baseDelayMs policy;
             k = attempts run - 1
         in 1 \<le> attempts run \<and> attempts run \<le> N + 1
            \<and> result run = deliver (fetch k)
            \<and> (\<forall>i<k. retryable (retryOnStatuses policy) (fetch i))
            \<and> (k < N \<longrightarrow> \<not> retryable (retryOnStatuses policy) (fetch k))
            \<and> (\<forall>r. result run = Returned r \<longrightarrow>
                  fetch k = Resolved r
                  \<and> (ok r \<or> status r \<notin> set (retryOnStatuses policy) \<or> attempts run = N + 1))
            \<and> (\<forall>e. result run = Thrown e \<longrightarrow> fetch k = Rejected e \<and> attempts run = N + 1)
            \<and> length (delays run) = k
            \<and> (\<forall>n<k. delays run ! n
                        = min (maxDelayMs policy) (of_int \<lfloor>base * 2 ^ n + rnd n * base\<rfloor>)
                    \<and> (0 < base \<longrightarrow> 0 \<le> rnd n * base \<and> rnd n * base < base))
            \<and> (\<forall>b n. base = real b \<and> 0 < b \<and> n < k \<longrightarrow>
                  (\<exists>j. 0 \<le> j \<and> j < base
                       \<and> delays run ! n = min (maxDelayMs policy) (base * 2 ^ n + j)))
            \<and> attempts (safeFetch fetch rnd None) = 1"
proof -
  define run where "run = safeFetch fetch rnd (Some policy)"
  define N where "N = maxRetries policy"
  define base where "base = baseDelayMs policy"
  define rs where "rs = retryOnStatuses policy"
  have "loop_post fetch rnd N base (maxDelayMs policy) rs 0 [] run"
    unfolding run_def N_def base_def rs_def safeFetch_Some
    by (rule safeFetch_loop_post) simp
  then obtain k where k: "k \<le> N" "attempts run = Suc k" "result run = deliver (fetch k)"
      "\<forall>i. i < k \<longrightarrow> retryable rs (fetch i)" "k < N \<longrightarrow> \<not> retryable rs (fetch k)"
      "delays run = map (\<lambda>i. computeBackoff i base (maxDelayMs policy) (rnd i)) [0..<k]"
    unfolding loop_post_def by auto
  have km: "attempts run - 1 = k" using k(2) by simp
  have bounds: "1 \<le> attempts run \<and> attempts run \<le> N + 1" using k(1,2) by simp
  have ret: "\<forall>r. result run = Returned r \<longrightarrow>
      fetch k = Resolved r \<and> (ok r \<or> status r \<notin> set rs \<or> attempts run = N + 1)"
  proof (intro allI impI)
    fix r assume "result run = Returned r"
    then have f: "fetch k = Resolved r" using k(3) by (simp add: deliver_Returned)
    have "ok r \<or> status r \<notin> set rs \<or> attempts run = N + 1"
    proof (cases "k < N")
      case True
      then have "\<not> retryable rs (fetch k)" using k(5) by simp
      then show ?thesis using f by (auto simp add: retryable_def)
    next
      case False
      then show ?thesis using k(1,2) by simp
    qed
    with f show "fetch k = Resolved r \<and> (ok r \<or> status r \<notin> set rs \<or> attempts run = N + 1)"
      by simp
  qed
  have thr: "\<forall>e. result run = Thrown e \<longrightarrow> fetch k = Rejected e \<and> attempts run = N + 1"
  proof (intro allI impI)
    fix e assume "result run = Thrown e"
    then have f: "fetch k = Rejected e" using k(3) by (simp add: deliver_Thrown)
    then have "retryable rs (fetch k)" by (simp add: retryable_def)
    then have "\<not> k < N" using k(5) by blast
    then show "fetch k = Rejected e \<and> attempts run = N + 1" using f k(1,2) by simp
  qed
  have len: "length (delays run) = k" using k(6) by simp
  have nth: "delays run ! n = min (maxDelayMs policy) (of_int \<lfloor>base * 2 ^ n + rnd n * base\<rfloor>)"
    if "n < k" for n
    using that k(6) by (simp add: computeBackoff_def)
  have jit: "0 < base \<longrightarrow> 0 \<le> rnd n * base \<and> rnd n * base < base" for n
    using rnd by simp
  have whole: "\<exists>j. 0 \<le> j \<and> j < base
      \<and> delays run ! n = min (maxDelayMs policy) (base * 2 ^ n + j)"
    if "base = real b \<and> 0 < b \<and> n < k" for b n
  proof -
    from that have b: "base = real b" "0 < b" "n < k" by simp_all
    obtain j where j: "0 \<le> j" "j < real b"
        "real_of_int \<lfloor>real b * 2 ^ n + rnd n * real b\<rfloor> = real b * 2 ^ n + j"
      using floor_whole_base [of "rnd n" b n] rnd b(2) by blast
    show ?thesis
      using j nth [OF b(3)] unfolding b(1) by auto
  qed
  show ?thesis
    unfolding Let_def run_def [symmetric] N_def [symmetric] base_def [symmetric]
      rs_def [symmetric] km
    using bounds k(3,4,5) ret thr len nth jit whole safeFetch_None [of fetch rnd]
    by (intro conjI allI impI) blast+
qed

text \<open>
  Two runs: 503, 503, a transport failure, then 200 under five retries; and a server
  that cannot be reached under one retry.
\<close>

theorem safeFetch_bounded_retry_witness:
  "safeFetch flakyServer (\<lambda>i. 1 / 2) (Some demoPolicy) =
     \<lparr> result = Returned \<lparr> status = 200, body = ''done'' \<rparr>, attempts = 4,
       delays = [450, 750, 1350] \<rparr>
   \<and> attempts (safeFetch flakyServer (\<lambda>i. 1 / 2) (Some demoPolicy)) \<le> maxRetries demoPolicy + 1
   \<and> flakyServer 3 = Resolved \<lparr> status = 200, body = ''done'' \<rparr>
   \<and> safeFetch deadServer (\<lambda>i. 0) (Some retryOnAccepted) =
       \<lparr> result = Thrown ''ECONNREFUSED'', attempts = 2, delays = [300] \<rparr>
   \<and> attempts (safeFetch deadServer (\<lambda>i. 0) (Some retryOnAccepted))
       = maxRetries retryOnAccepted + 1"
  using safeFetch_bounded_retry [of "\<lambda>i. 1 / 2" flakyServer demoPolicy]
    safeFetch_bounded_retry [of "\<lambda>i. 0" deadServer retryOnAccepted]
  unfolding flaky_run dead_run
  by (simp add: demoPolicy_def retryOnAccepted_def flakyServer_def)

text \<open>
  The claim as first stated fails in two places. A policy that asks to retry on 202
  gets the 202 back from the first call, with a retry left: the response is \<open>ok\<close>, and
  the loop only retries responses that are not. And with the base delay \<open>1/2\<close> the
  delay before the first retry is \<open>floor (1/2) = 0\<close>, which is not
  \<open>min 3000 (1/2 + j)\<close> for any \<open>j\<close> in \<open>[0, 1/2)\<close>.
\<close>

theorem safeFetch_bounded_retry_counterexample:
  "result (safeFetch acceptedThenOk (\<lambda>i. 0) (Some retryOnAccepted))
     = Returned \<lparr> status = 202, body = ''pending'' \<rparr>
   \<and> 202 \<in> set (retryOnStatuses retryOnAccepted)
   \<and> attempts (safeFetch acceptedThenOk (\<lambda>i. 0) (Some retryOnAccepted)) = 1
   \<and> attempts (safeFetch acceptedThenOk (\<lambda>i. 0) (Some retryOnAccepted))
       < maxRetries retryOnAccepted + 1
   \<and> acceptedThenOk 1 = Resolved \<lparr> status = 200, body = ''done'' \<rparr>
   \<and> 200 \<notin> set (retryOnStatuses retryOnAccepted)
   \<and> computeBackoff 0 (1 / 2) 3000 0 = 0
   \<and> \<not> (\<exists>j. 0 \<le> j \<and> j < 1 / 2 \<and> computeBackoff 0 (1 / 2) 3000 0 = min 3000 (1 / 2 * 2 ^ 0 + j))"
  unfolding accepted_run
  by (simp add: retryOnAccepted_def acceptedThenOk_def computeBackoff_def)

end
